theory Spec2Isabelle
  imports Complex_Main "HOL-Library.Sublist" "HOL-Library.Word"
begin

section \<open>JavaScript values used by the clipper\<close>

text \<open>
  Strings are \<^typ>\<open>string\<close>. Seconds are JavaScript numbers as the route handlers
  obtain them from \<open>timeToSeconds\<close>: a whole number of seconds or \<open>NaN\<close>
  (a comparison with \<open>NaN\<close> is false). Byte counts are naturals,
  timestamps are integer milliseconds, and quotients such as \<open>sizeMB\<close> are exact
  rationals.
\<close>

datatype jsnum = NaN | Num int

fun js_lt :: "jsnum \<Rightarrow> jsnum \<Rightarrow> bool" where
  "js_lt (Num a) (Num b) = (a < b)"
| "js_lt _ _ = False"

fun js_ge :: "jsnum \<Rightarrow> jsnum \<Rightarrow> bool" where
  "js_ge (Num a) (Num b) = (b \<le> a)"
| "js_ge _ _ = False"

fun js_gt :: "jsnum \<Rightarrow> jsnum \<Rightarrow> bool" where
  "js_gt (Num a) (Num b) = (b < a)"
| "js_gt _ _ = False"

definition digitL :: string where
  "digitL = ''0123456789''"

definition lowerL :: string where
  "lowerL = ''abcdefghijklmnopqrstuvwxyz''"

definition upperL :: string where
  "upperL = ''ABCDEFGHIJKLMNOPQRSTUVWXYZ''"

definition hexL :: string where
  "hexL = ''0123456789abcdef''"

fun dec :: "nat \<Rightarrow> string" where
  "dec n = (if n < 10 then [digitL ! n] else dec (n div 10) @ [digitL ! (n mod 10)])"

declare dec.simps [simp del]

definition int_str :: "int \<Rightarrow> string" where
  "int_str i = (if i < 0 then CHR ''-'' # dec (nat (- i)) else dec (nat i))"

text \<open>Template-literal rendering \<open>`${n}`\<close> of a number.\<close>

fun num_str :: "jsnum \<Rightarrow> string" where
  "num_str NaN = ''NaN''"
| "num_str (Num i) = int_str i"

text \<open>
  \<open>(p / q).toFixed(d)\<close> for an integer \<open>p\<close> and a positive \<open>q\<close>: the quotient rounded
  to \<open>d\<close> decimals, halves away from zero, the sign kept.
\<close>

definition pad_left :: "nat \<Rightarrow> string \<Rightarrow> string" where
  "pad_left k s = replicate (k - length s) CHR ''0'' @ s"

definition toFixed :: "nat \<Rightarrow> int \<Rightarrow> nat \<Rightarrow> string" where
  "toFixed d p q =
     (let n = (2 * nat \<bar>p\<bar> * 10 ^ d + q) div (2 * q);
          body = dec (n div 10 ^ d) @ (if d = 0 then [] else CHR ''.'' # pad_left d (dec (n mod 10 ^ d)))
      in if p < 0 then CHR ''-'' # body else body)"

text \<open>\<open>String.prototype.includes\<close>: the pattern occurs somewhere in the string.\<close>

fun str_includes :: "string \<Rightarrow> string \<Rightarrow> bool" where
  "str_includes [] p = (p = [])"
| "str_includes (c # cs) p = (prefix p (c # cs) \<or> str_includes cs p)"

text \<open>
  \<open>s.replace(/[^a-z0-9]/gi, '_').toLowerCase()\<close>: every character that is not an ASCII
  letter or digit becomes an underscore, then ASCII capitals are lowered.
\<close>

definition is_alnum :: "char \<Rightarrow> bool" where
  "is_alnum c = (c \<in> set (lowerL @ upperL @ digitL))"

definition lower_char :: "char \<Rightarrow> char" where
  "lower_char c = (case map_of (zip upperL lowerL) c of Some l \<Rightarrow> l | None \<Rightarrow> c)"

definition toLowerCase :: "string \<Rightarrow> string" where
  "toLowerCase s = map lower_char s"

definition replace_non_alnum :: "string \<Rightarrow> string" where
  "replace_non_alnum s = map (\<lambda>c. if is_alnum c then c else CHR ''_'') s"

definition titleSafe_of :: "string \<Rightarrow> string" where
  "titleSafe_of s = toLowerCase (replace_non_alnum s)"

text \<open>\<open>digest('hex')\<close>: two lower-case hexadecimal digits per digest byte.\<close>

definition hex_byte :: "8 word \<Rightarrow> string" where
  "hex_byte b = [hexL ! (unat b div 16), hexL ! (unat b mod 16)]"

definition hex :: "8 word list \<Rightarrow> string" where
  "hex bs = concat (map hex_byte bs)"

section \<open>Configuration and external collaborators\<close>

text \<open>
  \<open>TEMP_DIR\<close> is \<open>path.join(__dirname, '../../temp')\<close>, so it depends on where the
  application is installed; it is a normalised absolute path. The SHA-256
  digest comes from Node's \<open>crypto\<close> module and \<open>validateURL\<close> from \<open>ytdl-core\<close>;
  both are parameters of the model.
\<close>

record env =
  TEMP_DIR :: string
  sha256 :: "string \<Rightarrow> 8 word list"
  validateURL :: "string \<Rightarrow> bool"

definition QUALITY_FORMAT_MAP :: "(string \<times> string) list" where
  "QUALITY_FORMAT_MAP =
    [(''best'', ''bestvideo[ext=mp4]+bestaudio[ext=m4a]/best[ext=mp4]/best''),
     (''2160'', ''bestvideo[height<=2160]+bestaudio/best''),
     (''1440'', ''bestvideo[height<=1440]+bestaudio/best''),
     (''1080'', ''bestvideo[height<=1080]+bestaudio/best''),
     (''720'', ''bestvideo[height<=720]+bestaudio/best''),
     (''480'', ''bestvideo[height<=480]+bestaudio/best''),
     (''360'', ''bestvideo[height<=360]+bestaudio/best''),
     (''audio'', ''bestaudio[ext=m4a]/bestaudio'')]"

definition STDERR_MAX_BYTES :: nat where
  "STDERR_MAX_BYTES = 100 * 1024"

definition chosenFormat_of :: "string \<Rightarrow> string" where
  "chosenFormat_of quality =
     (case map_of QUALITY_FORMAT_MAP quality of
        Some f \<Rightarrow> f
      | None \<Rightarrow> the (map_of QUALITY_FORMAT_MAP ''best''))"

section \<open>Application state\<close>

datatype error = Error string

record file_stat =
  fsize :: nat
  mtimeMs :: int
  content :: string

text \<open>An entry of \<open>state.activeClips\<close>; \<open>proc\<close> is the handle of the worker, \<open>null\<close> after it closed.\<close>

record clip =
  proc :: "nat option"
  c_outputPath :: string
  percent :: rat
  message :: string
  background :: bool
  c_filename :: string
  ready :: "bool option"
  stderr :: "string option"

record clip_path =
  clipId :: string
  outputPath :: string
  filename :: string
  ext :: string

text \<open>
  What \<open>downloadClip\<close> keeps in its closure for one spawned worker: the arguments it was
  spawned with, the fingerprint, \<open>resumeInfo\<close> (the \<open>sizeMB\<close> and \<open>ageMinutes\<close> strings, when an
  earlier file was found) and the stderr buffer. \<open>closed\<close> records that the worker's
  \<open>close\<close> event was delivered.
\<close>

record job =
  args :: "string list"
  j_path :: clip_path
  resumeInfo :: "(string \<times> string) option"
  stderrBuf :: string
  closed :: bool

datatype rec_status = Recording | Finished | Stopped

record recording =
  r_url :: string
  r_title :: string
  r_startedAt :: int
  r_outPath :: string
  r_args :: "string list"
  status :: rec_status
  maxDuration :: nat
  exitCode :: "int option"
  exitSignal :: "string option"
  endedAt :: "int option"
  cleanupTimer :: bool
  updateInterval :: bool

datatype event =
    Progress rat string
  | RecordingStatus string rec_status
  | RecordingRemoved string

text \<open>
  The file system below the temp directory (\<open>files\<close>; \<open>readonly\<close> makes \<open>unlinkSync\<close>,
  \<open>writeFileSync\<close> and \<open>mkdirSync\<close> throw), the two in-memory registries, every clip
  worker spawned so far (a handle is an index into \<open>spawned\<close>), what was broadcast, and the
  recordings whose worker was sent a kill signal (\<open>killed\<close>).
\<close>

record world =
  files :: "string \<rightharpoonup> file_stat"
  readonly :: bool
  tempDirExists :: bool
  activeClips :: "string \<rightharpoonup> clip"
  spawned :: "job list"
  currentProgress :: "rat \<times> string"
  broadcasts :: "event list"
  recordings :: "string \<rightharpoonup> recording"
  killed :: "string list"

definition existsSync :: "world \<Rightarrow> string \<Rightarrow> bool" where
  "existsSync w p = (files w p \<noteq> None)"

definition unlinkSync :: "string \<Rightarrow> world \<Rightarrow> error + world" where
  "unlinkSync p w =
     (if readonly w then Inl (Error ''EROFS: read-only file system'')
      else Inr (w\<lparr>files := (files w)(p := None)\<rparr>))"

definition writeFileSync :: "string \<Rightarrow> string \<Rightarrow> int \<Rightarrow> world \<Rightarrow> error + world" where
  "writeFileSync p text now w =
     (if readonly w then Inl (Error ''EROFS: read-only file system'')
      else Inr (w\<lparr>files := (files w)(p \<mapsto> \<lparr>fsize = length text, mtimeMs = now, content = text\<rparr>)\<rparr>))"

definition wsBroadcast :: "event \<Rightarrow> world \<Rightarrow> world" where
  "wsBroadcast e w = w\<lparr>broadcasts := broadcasts w @ [e]\<rparr>"

section \<open>File utilities\<close>

definition ensureTempDir :: "world \<Rightarrow> error + world" where
  "ensureTempDir w =
     (if \<not> tempDirExists w then
        (if readonly w then Inl (Error ''EROFS: read-only file system'')
         else Inr (w\<lparr>tempDirExists := True\<rparr>))
      else Inr w)"

text \<open>\<open>path.join(dir, name)\<close> for a normalised directory and a plain file name.\<close>

definition path_join :: "string \<Rightarrow> string \<Rightarrow> string" where
  "path_join dir name = dir @ ''/'' @ name"

definition clip_hash :: "env \<Rightarrow> string \<Rightarrow> jsnum \<Rightarrow> jsnum \<Rightarrow> string \<Rightarrow> string" where
  "clip_hash E url startSeconds endSeconds quality =
     take 12 (hex (sha256 E (url @ ''|'' @ num_str startSeconds @ ''|'' @ num_str endSeconds @ ''|'' @ quality)))"

definition clip_path_of :: "env \<Rightarrow> string \<Rightarrow> jsnum \<Rightarrow> jsnum \<Rightarrow> string \<Rightarrow> clip_path" where
  "clip_path_of E url startSeconds endSeconds quality =
     (let hash = clip_hash E url startSeconds endSeconds quality;
          titleSafe = titleSafe_of (if url = [] then ''clip'' else url);
          ext = (if quality = ''audio'' then ''m4a'' else ''mp4'');
          filename = titleSafe @ ''_clip_'' @ hash @ ''.'' @ ext
      in \<lparr>clipId = hash, outputPath = path_join (TEMP_DIR E) filename,
          filename = filename, ext = ext\<rparr>)"

definition getClipIdAndPath ::
    "env \<Rightarrow> string \<Rightarrow> jsnum \<Rightarrow> jsnum \<Rightarrow> string \<Rightarrow> world \<Rightarrow> error + (clip_path \<times> world)" where
  "getClipIdAndPath E url startSeconds endSeconds quality w =
     (case ensureTempDir w of
        Inl e \<Rightarrow> Inl e
      | Inr w1 \<Rightarrow> Inr (clip_path_of E url startSeconds endSeconds quality, w1))"

record validation =
  resumable :: bool
  reason :: string
  sizeMB :: rat

definition validateResumable :: "world \<Rightarrow> int \<Rightarrow> string \<Rightarrow> validation" where
  "validateResumable w now filePath =
     (case files w filePath of
        None \<Rightarrow> \<lparr>resumable = False, reason = ''File does not exist'', sizeMB = 0\<rparr>
      | Some stats \<Rightarrow>
          (let sizeMB = of_nat (fsize stats) / (1024 * 1024);
               ageMinutes = (of_int (now - mtimeMs stats) :: rat) / 60000
           in if fsize stats < 1024 then
                \<lparr>resumable = False, reason = ''File too small (corrupted)'', sizeMB = sizeMB\<rparr>
              else if ageMinutes > 1440 \<and> sizeMB < 1 then
                \<lparr>resumable = False, reason = ''Stale and undersized'', sizeMB = sizeMB\<rparr>
              else
                \<lparr>resumable = True, reason = ''Valid partial download'', sizeMB = sizeMB\<rparr>))"

section \<open>Clip service\<close>

definition newline :: string where
  "newline = [char_of (10 :: nat)]"

fun join_lines :: "string list \<Rightarrow> string" where
  "join_lines [] = []"
| "join_lines [l] = l"
| "join_lines (l # ls) = l @ newline @ join_lines ls"

definition clip_args :: "string \<Rightarrow> jsnum \<Rightarrow> jsnum \<Rightarrow> string \<Rightarrow> string \<Rightarrow> string list" where
  "clip_args url startSeconds endSeconds quality outPath =
     [''-f'', chosenFormat_of quality,
      ''--download-sections'', ''*'' @ num_str startSeconds @ ''-'' @ num_str endSeconds,
      ''--force-keyframes-at-cuts'',
      ''--retries'', ''15'',
      ''--fragment-retries'', ''20'',
      ''--retry-sleep'', ''3'',
      ''--file-access-retries'', ''5'',
      ''--continue'',
      ''--no-overwrites'',
      ''--concurrent-fragments'', ''3'',
      ''--throttled-rate'', ''100K'',
      ''--merge-output-format'', ''mp4'',
      ''--progress'',
      ''--newline'',
      ''--progress-template'', ''%(progress._percent_str)s %(progress.speed)s'',
      ''-o'', outPath,
      url]"

text \<open>
  The resume detection at the head of \<open>downloadClip\<close>: a file at the output path that is
  older than 24 hours, has no registry entry and is below 1024 bytes is unlinked; any
  other file is described in \<open>resumeInfo\<close>. An exception of \<open>unlinkSync\<close> is caught and
  leaves \<open>resumeInfo\<close> null.
\<close>

definition resume_detection :: "int \<Rightarrow> clip_path \<Rightarrow> world \<Rightarrow> (string \<times> string) option \<times> world" where
  "resume_detection now cp w =
     (case files w (outputPath cp) of
        None \<Rightarrow> (None, w)
      | Some st \<Rightarrow>
          (let ageMinutes = (of_int (now - mtimeMs st) :: rat) / 60000;
               isStale = (ageMinutes > 1440 \<and> activeClips w (clipId cp) = None)
           in if isStale \<and> fsize st < 1024 then
                (case unlinkSync (outputPath cp) w of
                   Inl e \<Rightarrow> (None, w)
                 | Inr w1 \<Rightarrow> (None, w1))
              else
                (Some (toFixed 2 (int (fsize st)) (1024 * 1024),
                       toFixed 1 (now - mtimeMs st) 60000), w)))"

text \<open>
  \<open>downloadClip\<close> up to the point where it returns its promise: the worker is spawned
  unconditionally and registered under the fingerprint, replacing any entry already
  there. \<open>Inl\<close> is a promise rejected before anything was spawned; \<open>Inr\<close> carries
  the handle of the new worker, whose \<open>close\<close> event settles the promise.
\<close>

definition downloadClip ::
    "env \<Rightarrow> int \<Rightarrow> string \<Rightarrow> jsnum \<Rightarrow> jsnum \<Rightarrow> string \<Rightarrow> bool \<Rightarrow> world \<Rightarrow> error + (nat \<times> world)" where
  "downloadClip E now url startSeconds endSeconds quality bg w =
     (case ensureTempDir w of
        Inl e \<Rightarrow> Inl e
      | Inr w0 \<Rightarrow>
     (case getClipIdAndPath E url startSeconds endSeconds quality w0 of
        Inl e \<Rightarrow> Inl e
      | Inr (cp, w1) \<Rightarrow>
          (let (rinfo, w2) = resume_detection now cp w1;
               argv = clip_args url startSeconds endSeconds quality (outputPath cp);
               h = length (spawned w2);
               w3 = w2\<lparr>spawned := spawned w2 @
                      [\<lparr>args = argv, j_path = cp, resumeInfo = rinfo,
                        stderrBuf = [], closed = False\<rparr>]\<rparr>;
               w4 = w3\<lparr>activeClips := (activeClips w3)(clipId cp \<mapsto>
                      \<lparr>proc = Some h, c_outputPath = outputPath cp, percent = 0,
                       message = ''Starting'', background = bg, c_filename = filename cp,
                       ready = None, stderr = None\<rparr>)\<rparr>
           in Inr (h, w4))))"

text \<open>\<open>proc.stderr.on('data')\<close>: the buffer keeps the last \<open>STDERR_MAX_BYTES\<close> characters.\<close>

definition slice_last :: "nat \<Rightarrow> string \<Rightarrow> string" where
  "slice_last k s = drop (length s - k) s"

definition clip_on_stderr :: "nat \<Rightarrow> string \<Rightarrow> world \<Rightarrow> world" where
  "clip_on_stderr h s w =
     (if h < length (spawned w) then
        (let j = spawned w ! h
         in w\<lparr>spawned := (spawned w)[h := j\<lparr>stderrBuf := slice_last STDERR_MAX_BYTES (stderrBuf j @ s)\<rparr>]\<rparr>)
      else w)"

datatype settlement = Resolve clip_path | Reject error

definition code_str :: "int option \<Rightarrow> string" where
  "code_str code = (case code of None \<Rightarrow> ''null'' | Some c \<Rightarrow> int_str c)"

definition signal_str :: "string option \<Rightarrow> string" where
  "signal_str signal = (case signal of None \<Rightarrow> ''null'' | Some s \<Rightarrow> s)"

definition exit_msg :: "int option \<Rightarrow> string option \<Rightarrow> string" where
  "exit_msg code signal = ''yt-dlp exited with code '' @ code_str code @ '' signal '' @ signal_str signal"

definition log_header :: "int option \<Rightarrow> string option \<Rightarrow> string \<Rightarrow> (string \<times> string) option \<Rightarrow> nat \<Rightarrow> string" where
  "log_header code signal timestamp rinfo partialSize =
     join_lines
       [''Exit code: '' @ code_str code @ '' signal: '' @ signal_str signal,
        ''Timestamp: '' @ timestamp,
        ''Resume info: '' @ (case rinfo of
                               Some (mb, age) \<Rightarrow> mb @ '' MB ('' @ age @ ''min old)''
                             | None \<Rightarrow> ''new download''),
        ''Partial file size: '' @ toFixed 2 (int partialSize) (1024 * 1024) @ '' MB'',
        ''Can resume: '' @ (if partialSize > 0 then ''yes'' else ''no''),
        ''--- stderr ---'' @ newline]"

text \<open>
  \<open>proc.on('close')\<close> of the worker with handle \<open>h\<close>; \<open>timestamp\<close> is
  \<open>new Date().toISOString()\<close>. The registry entry updated is whichever entry the
  fingerprint has at that moment. A failed write of the log is ignored. The event
  is delivered once per worker: \<open>None\<close> when \<open>h\<close> is no worker or has closed already.
\<close>

definition clip_on_close ::
    "nat \<Rightarrow> int option \<Rightarrow> string option \<Rightarrow> int \<Rightarrow> string \<Rightarrow> world \<Rightarrow> (settlement \<times> world) option" where
  "clip_on_close h code signal now timestamp w =
     (if \<not> (h < length (spawned w) \<and> \<not> closed (spawned w ! h)) then None else Some
     (let j = spawned w ! h;
          cp = j_path j;
          w1 = w\<lparr>spawned := (spawned w)[h := j\<lparr>closed := True\<rparr>]\<rparr>;
          w2 = (case activeClips w1 (clipId cp) of
                  None \<Rightarrow> w1
                | Some c \<Rightarrow> w1\<lparr>activeClips := (activeClips w1)(clipId cp \<mapsto>
                      c\<lparr>proc := None, percent := 100,
                        message := (if code = Some 0 then ''Complete'' else ''Error''),
                        ready := Some (code = Some 0), stderr := Some (stderrBuf j)\<rparr>)\<rparr>)
      in if code = Some 0 then
           (Resolve cp, wsBroadcast (Progress 100 ''Complete'') (w2\<lparr>currentProgress := (100, ''Complete'')\<rparr>))
         else
           (let logPath = outputPath cp @ ''.yt-dlp.log'';
                partialSize = (case files w2 (outputPath cp) of Some st \<Rightarrow> fsize st | None \<Rightarrow> 0);
                header = log_header code signal timestamp (resumeInfo j) partialSize;
                w3 = (case writeFileSync logPath (header @ stderrBuf j) now w2 of
                        Inl e \<Rightarrow> w2
                      | Inr w' \<Rightarrow> w')
            in (Reject (Error (exit_msg code signal)), w3))))"

section \<open>Clip routes\<close>

text \<open>
  A request body after \<open>timeToSeconds\<close>: \<open>None\<close> is a field that is missing or null. For a
  missing time \<open>timeToSeconds\<close> yields 0.
\<close>

record clip_request =
  q_url :: "string option"
  q_start :: "jsnum option"
  q_end :: "jsnum option"
  q_background :: "bool option"
  q_quality :: "string option"

record video_info =
  v_title :: string
  lengthSeconds :: jsnum
  isLiveContent :: bool

datatype response =
    ErrorJson nat string
  | StartedJson string string "string option"
  | InProgressJson string rat string
  | ReadyJson string string rat
  | Download string string
  | Awaiting nat

definition timeToSeconds :: "jsnum option \<Rightarrow> jsnum" where
  "timeToSeconds t = (case t of None \<Rightarrow> Num 0 | Some n \<Rightarrow> n)"

definition falsy_url :: "string option \<Rightarrow> bool" where
  "falsy_url u = (case u of None \<Rightarrow> True | Some s \<Rightarrow> s = [])"

definition quality_of :: "clip_request \<Rightarrow> string" where
  "quality_of req = (case q_quality req of None \<Rightarrow> ''best'' | Some q \<Rightarrow> q)"

definition error_message :: "error \<Rightarrow> string" where
  "error_message e = (case e of Error m \<Rightarrow> m)"

text \<open>
  \<open>POST /api/clip\<close>. \<open>info\<close> is what \<open>fetchVideoInfo\<close> answers. In the foreground the
  handler then waits for the worker it spawned (\<open>Awaiting\<close>); the response it sends after
  the worker closed is not part of the model.
\<close>

definition post_clip ::
    "env \<Rightarrow> int \<Rightarrow> clip_request \<Rightarrow> error + video_info \<Rightarrow> world \<Rightarrow> response \<times> world" where
  "post_clip E now req info w =
     (let url = (case q_url req of None \<Rightarrow> [] | Some u \<Rightarrow> u);
          bg = (case q_background req of None \<Rightarrow> False | Some b \<Rightarrow> b);
          quality = quality_of req
      in if falsy_url (q_url req) \<or> \<not> validateURL E url then
           (ErrorJson 400 ''Invalid YouTube URL'', w)
         else
           (let startSeconds = timeToSeconds (q_start req);
                endSeconds = timeToSeconds (q_end req)
            in if js_ge startSeconds endSeconds then
                 (ErrorJson 400 ''Start time must be before end time'', w)
               else if js_lt startSeconds (Num 0) \<or> js_lt endSeconds (Num 0) then
                 (ErrorJson 400 ''Times must be positive'', w)
               else
                 (case info of
                    Inl e \<Rightarrow> (ErrorJson 500 (''Failed to process video clip: '' @ error_message e), w)
                  | Inr vi \<Rightarrow>
                      if isLiveContent vi then
                        (ErrorJson 400 ''Video appears to be a live stream. Use /api/record/start to record live streams.'', w)
                      else if js_gt endSeconds (lengthSeconds vi) then
                        (ErrorJson 400 (''End time exceeds video duration ('' @ num_str (lengthSeconds vi) @ ''s)''), w)
                      else
                        (let w1 = wsBroadcast (Progress 0 ''Starting'') (w\<lparr>currentProgress := (0, ''Starting'')\<rparr>)
                         in if bg then
                              (case getClipIdAndPath E url startSeconds endSeconds quality w1 of
                                 Inl e \<Rightarrow> (ErrorJson 500 (''Failed to process video clip: '' @ error_message e), w1)
                               | Inr (cp, w2) \<Rightarrow>
                                   (case downloadClip E now url startSeconds endSeconds quality True w2 of
                                      Inl e \<Rightarrow> (StartedJson (clipId cp) (filename cp) None, w2)
                                    | Inr (h, w3) \<Rightarrow> (StartedJson (clipId cp) (filename cp) None, w3)))
                            else
                              (case downloadClip E now url startSeconds endSeconds quality False w1 of
                                 Inl e \<Rightarrow> (ErrorJson 500 (''Failed to process video clip: '' @ error_message e), w1)
                               | Inr (h, w2) \<Rightarrow> (Awaiting h, w2))))))"

text \<open>\<open>POST /api/clip/resume\<close>.\<close>

definition clip_active :: "world \<Rightarrow> string \<Rightarrow> bool" where
  "clip_active w cid = (case activeClips w cid of None \<Rightarrow> False | Some c \<Rightarrow> proc c \<noteq> None)"

definition post_resume :: "env \<Rightarrow> int \<Rightarrow> clip_request \<Rightarrow> world \<Rightarrow> response \<times> world" where
  "post_resume E now req w =
     (let url = (case q_url req of None \<Rightarrow> [] | Some u \<Rightarrow> u);
          bg = (case q_background req of None \<Rightarrow> True | Some b \<Rightarrow> b);
          quality = quality_of req
      in if falsy_url (q_url req) \<or> q_start req = None \<or> q_end req = None then
           (ErrorJson 400 ''Missing url/start/end'', w)
         else
           (let startSeconds = timeToSeconds (q_start req);
                endSeconds = timeToSeconds (q_end req)
            in case getClipIdAndPath E url startSeconds endSeconds quality w of
                 Inl e \<Rightarrow> (ErrorJson 500 (error_message e), w)
               | Inr (cp, w1) \<Rightarrow>
                   if clip_active w1 (clipId cp) then
                     (let c = the (activeClips w1 (clipId cp))
                      in (InProgressJson (clipId cp) (percent c) (message c), w1))
                   else if existsSync w1 (outputPath cp) \<and> \<not> str_includes (outputPath cp) ''.part'' then
                     (if bg then (ReadyJson (clipId cp) (filename cp) (sizeMB (validateResumable w1 now (outputPath cp))), w1)
                      else (Download (outputPath cp) (filename cp), w1))
                   else
                     (let w2 = (if existsSync w1 (outputPath cp) \<and> \<not> resumable (validateResumable w1 now (outputPath cp)) then
                                  (case unlinkSync (outputPath cp) w1 of Inl e \<Rightarrow> w1 | Inr w' \<Rightarrow> w')
                                else w1);
                          action = (if existsSync w2 (outputPath cp) then ''Resuming'' else ''Starting'');
                          w3 = (case downloadClip E now url startSeconds endSeconds quality True w2 of
                                  Inl e \<Rightarrow> w2
                                | Inr (h, w') \<Rightarrow> w')
                      in if bg then
                           (StartedJson (clipId cp) (filename cp) (Some (toLowerCase action)), w3)
                         else
                           (case downloadClip E now url startSeconds endSeconds quality False w3 of
                              Inl e \<Rightarrow> (ErrorJson 500 (error_message e), w3)
                            | Inr (h, w4) \<Rightarrow> (Awaiting h, w4)))))"

section \<open>Recording service\<close>

text \<open>
  A recording entry holds the arguments its worker was spawned with. \<open>cleanupTimer\<close> and
  \<open>updateInterval\<close> say whether the timer is pending.
\<close>

definition scheduleRecordingCleanup :: "string \<Rightarrow> world \<Rightarrow> world" where
  "scheduleRecordingCleanup rid w =
     (case recordings w rid of
        None \<Rightarrow> w
      | Some r \<Rightarrow> w\<lparr>recordings := (recordings w)(rid \<mapsto> r\<lparr>cleanupTimer := True\<rparr>)\<rparr>)"

text \<open>The callback of the cleanup timer.\<close>

definition cleanup_fire :: "string \<Rightarrow> world \<Rightarrow> world" where
  "cleanup_fire rid w =
     (case recordings w rid of
        None \<Rightarrow> w
      | Some r \<Rightarrow>
          if \<not> cleanupTimer r then w
          else
            (let w1 = (if existsSync w (r_outPath r) then
                         (case unlinkSync (r_outPath r) w of Inl e \<Rightarrow> w | Inr w' \<Rightarrow> w')
                       else w)
             in wsBroadcast (RecordingRemoved rid) (w1\<lparr>recordings := (recordings w1)(rid := None)\<rparr>)))"

definition record_args :: "string \<Rightarrow> string \<Rightarrow> string \<Rightarrow> string list" where
  "record_args url quality outPath =
     [''-f'', chosenFormat_of quality,
      ''--hls-use-mpegts'',
      ''--hls-prefer-ffmpeg'',
      ''--retries'', ''10'',
      ''--fragment-retries'', ''10'',
      ''--no-overwrites'',
      ''--continue'',
      ''--no-part'',
      ''-o'', outPath,
      url]"

text \<open>
  \<open>startRecording\<close>; \<open>now\<close> is \<open>Date.now()\<close> and \<open>rnd\<close> is
  \<open>Math.floor(Math.random() * 10000)\<close>.
\<close>

definition startRecording ::
    "env \<Rightarrow> int \<Rightarrow> nat \<Rightarrow> string \<Rightarrow> string \<Rightarrow> nat \<Rightarrow> string \<Rightarrow> world \<Rightarrow> error + (string \<times> world)" where
  "startRecording E now rnd url quality maxDur title w =
     (case ensureTempDir w of
        Inl e \<Rightarrow> Inl e
      | Inr w1 \<Rightarrow>
          (let rid = ''rec_'' @ int_str now @ ''_'' @ dec rnd;
               titleSafe = titleSafe_of (if title = [] then ''live'' else title);
               outPath = path_join (TEMP_DIR E) (titleSafe @ ''_'' @ rid @ ''.ts'');
               r = \<lparr>r_url = url, r_title = title, r_startedAt = now, r_outPath = outPath,
                    r_args = record_args url quality outPath, status = Recording,
                    maxDuration = maxDur, exitCode = None, exitSignal = None, endedAt = None,
                    cleanupTimer = False, updateInterval = True\<rparr>
           in Inr (rid, w1\<lparr>recordings := (recordings w1)(rid \<mapsto> r)\<rparr>)))"

text \<open>\<open>proc.on('close')\<close> of a recording's worker.\<close>

definition rec_on_close :: "string \<Rightarrow> int option \<Rightarrow> string option \<Rightarrow> int \<Rightarrow> world \<Rightarrow> world" where
  "rec_on_close rid code signal now w =
     (let st = (if code = Some 0 then Finished else Stopped)
      in case recordings w rid of
           None \<Rightarrow> wsBroadcast (RecordingStatus rid st) w
         | Some r \<Rightarrow>
             (let w1 = w\<lparr>recordings := (recordings w)(rid \<mapsto>
                          r\<lparr>status := st, exitCode := code, exitSignal := signal,
                            endedAt := Some now, updateInterval := False\<rparr>)\<rparr>
              in wsBroadcast (RecordingStatus rid st) (scheduleRecordingCleanup rid w1)))"

text \<open>\<open>outPath.replace(/\.ts$/i, '.mp4')\<close>.\<close>

definition replace_ts :: "string \<Rightarrow> string" where
  "replace_ts p =
     (if suffix ''.ts'' (toLowerCase p) then take (length p - 3) p @ ''.mp4'' else p)"

record stop_result =
  s_id :: string
  s_outPath :: string
  s_status :: rec_status

text \<open>
  \<open>stopRecording\<close>. After the guards the worker is signalled and the call waits, at most
  10 seconds, for the status to leave \<open>recording\<close>: \<open>exit\<close> is the \<open>close\<close> event
  the worker delivers within that time, if any. \<open>remux\<close> is the file ffmpeg
  writes, \<open>None\<close> when ffmpeg fails. (\<open>rec.proc\<close> is set at start and never cleared, so the
  guard only reads the status.)
\<close>

definition stopRecording ::
    "string \<Rightarrow> (int option \<times> string option) option \<Rightarrow> file_stat option \<Rightarrow> int \<Rightarrow> world
      \<Rightarrow> error + (stop_result \<times> world)" where
  "stopRecording rid exit remux now w =
     (case recordings w rid of
        None \<Rightarrow> Inl (Error ''Recording not found'')
      | Some r0 \<Rightarrow>
          if status r0 \<noteq> Recording then Inl (Error ''Recording not active'')
          else
            (let w1 = w\<lparr>killed := killed w @ [rid]\<rparr>;
                 w2 = (case exit of
                         None \<Rightarrow> w1
                       | Some (code, signal) \<Rightarrow> rec_on_close rid code signal now w1);
                 r = (case recordings w2 rid of Some r' \<Rightarrow> r' | None \<Rightarrow> r0);
                 finalPath = replace_ts (r_outPath r);
                 remuxed = (existsSync w2 (r_outPath r) \<and> remux \<noteq> None);
                 w3 = (if remuxed then
                         (let w' = w2\<lparr>files := (files w2)(finalPath := remux)\<rparr>
                          in case unlinkSync (r_outPath r) w' of Inl e \<Rightarrow> w' | Inr w'' \<Rightarrow> w'')
                       else w2);
                 outPath = (if remuxed then finalPath else r_outPath r);
                 w4 = w3\<lparr>recordings := (recordings w3)(rid \<mapsto>
                        r\<lparr>updateInterval := False, r_outPath := outPath, status := Finished\<rparr>)\<rparr>;
                 w5 = wsBroadcast (RecordingStatus rid Finished) (scheduleRecordingCleanup rid w4)
             in Inr (\<lparr>s_id = rid, s_outPath = outPath, s_status = Finished\<rparr>, w5)))"

text \<open>What can happen to a recording after it was started.\<close>

datatype rec_event =
    EvClose "int option" "string option"
  | EvStop "(int option \<times> string option) option" "file_stat option"
  | EvCleanup

fun rec_step :: "string \<Rightarrow> int \<Rightarrow> rec_event \<Rightarrow> world \<Rightarrow> world" where
  "rec_step rid now (EvClose code signal) w = rec_on_close rid code signal now w"
| "rec_step rid now (EvStop exit remux) w =
     (case stopRecording rid exit remux now w of Inl e \<Rightarrow> w | Inr (res, w') \<Rightarrow> w')"
| "rec_step rid now EvCleanup w = cleanup_fire rid w"

fun rec_run :: "string \<Rightarrow> int \<Rightarrow> rec_event list \<Rightarrow> world \<Rightarrow> world" where
  "rec_run rid now [] w = w"
| "rec_run rid now (ev # evs) w = rec_run rid now evs (rec_step rid now ev w)"

definition status_of :: "world \<Rightarrow> string \<Rightarrow> rec_status option" where
  "status_of w rid = map_option status (recordings w rid)"

text \<open>The server's state at start-up, on a writable disk with an empty temp directory.\<close>

definition world0 :: world where
  "world0 = \<lparr>files = Map.empty, readonly = False, tempDirExists = True,
             activeClips = Map.empty, spawned = [], currentProgress = (0, ''Idle''),
             broadcasts = [], recordings = Map.empty, killed = []\<rparr>"

text \<open>The workers of a fingerprint that were spawned and have not closed.\<close>

definition live_workers :: "world \<Rightarrow> string \<Rightarrow> job list" where
  "live_workers w cid = filter (\<lambda>j. clipId (j_path j) = cid \<and> \<not> closed j) (spawned w)"

section \<open>Example inputs\<close>

text \<open>
  An installation below \<open>/app\<close>; a request for seconds 10 to 40 of a video at the default
  quality; a video of ten minutes; a world with one more file. \<open>example_digest\<close> stands in
  for SHA-256 in the closed examples only: every theorem below is proved for an arbitrary
  digest function, and no example depends on the digest's value.
\<close>

definition example_digest :: "string \<Rightarrow> 8 word list" where
  "example_digest s = replicate 32 (of_nat (length s))"

definition example_env :: env where
  "example_env = \<lparr>TEMP_DIR = ''/app/temp'', sha256 = example_digest,
                   validateURL = (\<lambda>u. prefix ''https://www.youtube.com/watch?v='' u)\<rparr>"

definition example_url :: string where
  "example_url = ''https://www.youtube.com/watch?v=srcXYZ''"

definition example_request :: "bool \<Rightarrow> clip_request" where
  "example_request bg = \<lparr>q_url = Some example_url, q_start = Some (Num 10), q_end = Some (Num 40),
                          q_background = Some bg, q_quality = None\<rparr>"

definition example_info :: video_info where
  "example_info = \<lparr>v_title = ''Example'', lengthSeconds = Num 600, isLiveContent = False\<rparr>"

definition with_file :: "string \<Rightarrow> nat \<Rightarrow> int \<Rightarrow> world \<Rightarrow> world" where
  "with_file p n t w = w\<lparr>files := (files w)(p \<mapsto> \<lparr>fsize = n, mtimeMs = t, content = []\<rparr>)\<rparr>"

section \<open>Strings and paths\<close>

lemma lower_char_safe:
  "c \<in> set (lowerL @ upperL @ digitL @ ''_'') \<Longrightarrow> lower_char c \<in> set (lowerL @ digitL @ ''_'')"
  by (auto simp: lower_char_def upperL_def lowerL_def digitL_def)

lemma titleSafe_chars: "set (titleSafe_of s) \<subseteq> set (lowerL @ digitL @ ''_'')"
proof -
  have "lower_char (if is_alnum c then c else CHR ''_'') \<in> set (lowerL @ digitL @ ''_'')" for c
    by (rule lower_char_safe) (auto simp: is_alnum_def)
  then show ?thesis
    by (auto simp: titleSafe_of_def toLowerCase_def replace_non_alnum_def)
qed

lemma hex_byte_chars: "set (hex_byte b) \<subseteq> set hexL"
proof -
  have len: "length hexL = 16" by (simp add: hexL_def)
  have "unat b < 256"
    using unsigned_less [of b, where ?'a = nat] by simp
  then have "unat b div 16 < length hexL" "unat b mod 16 < length hexL"
    unfolding len by simp_all
  then have "hexL ! (unat b div 16) \<in> set hexL" "hexL ! (unat b mod 16) \<in> set hexL"
    by (simp_all only: nth_mem)
  then show ?thesis
    unfolding hex_byte_def by simp
qed

lemma hex_chars: "set (hex bs) \<subseteq> set hexL"
  using hex_byte_chars by (auto simp: hex_def)

lemma clip_hash_chars: "set (clip_hash E u s e q) \<subseteq> set hexL"
  using hex_chars set_take_subset unfolding clip_hash_def by (meson subset_trans)

lemma prefix_before_sep:
  "prefix p (u @ c # v) \<Longrightarrow> c \<notin> set p \<Longrightarrow> prefix p u"
proof (induction u arbitrary: p)
  case Nil
  then show ?case by (cases p) auto
next
  case (Cons x u)
  then show ?case by (cases p) auto
qed

lemma str_includes_prefix: "prefix p s \<Longrightarrow> str_includes s p"
  by (cases s) auto

lemma str_includes_split:
  "str_includes (u @ c # v) p \<Longrightarrow> c \<notin> set p \<Longrightarrow> str_includes u p \<or> str_includes v p"
proof (induction u)
  case Nil
  then show ?case by (auto simp: prefix_Cons)
next
  case (Cons x u)
  then show ?case
    using prefix_before_sep [of p "x # u" c v] by auto
qed

lemma str_includes_skip:
  "str_includes (u @ v) (x # p) \<Longrightarrow> x \<notin> set u \<Longrightarrow> str_includes v (x # p)"
  by (induction u) (auto simp: prefix_Cons)

lemma body_chars:
  "set (titleSafe_of t @ ''_clip_'' @ clip_hash E u s e q) \<subseteq> set (lowerL @ digitL @ ''_'')"
proof -
  have "set hexL \<subseteq> set (lowerL @ digitL @ ''_'')"
    by (simp add: hexL_def lowerL_def digitL_def)
  moreover have "set ''_clip_'' \<subseteq> set (lowerL @ digitL @ ''_'')"
    by (simp add: lowerL_def)
  ultimately show ?thesis
    using titleSafe_chars [of t] clip_hash_chars [of E u s e q] by auto
qed

lemma dot_not_safe: "CHR ''.'' \<notin> set (lowerL @ digitL @ ''_'')"
  by (simp add: lowerL_def digitL_def)

lemma filename_no_part:
  "\<not> str_includes (filename (clip_path_of E u s e q)) ''.part''"
proof
  let ?body = "titleSafe_of (if u = [] then ''clip'' else u) @ ''_clip_'' @ clip_hash E u s e q"
  let ?ext = "if q = ''audio'' then ''m4a'' else ''mp4''"
  assume "str_includes (filename (clip_path_of E u s e q)) ''.part''"
  then have "str_includes (?body @ (''.'' @ ?ext)) (CHR ''.'' # ''part'')"
    by (simp add: clip_path_of_def Let_def)
  moreover have "CHR ''.'' \<notin> set ?body"
    using body_chars [of "if u = [] then ''clip'' else u" E u s e q] dot_not_safe by blast
  ultimately have "str_includes (''.'' @ ?ext) (CHR ''.'' # ''part'')"
    by (rule str_includes_skip)
  then show False by (simp split: if_splits)
qed

lemma outputPath_no_part:
  assumes "\<not> str_includes (TEMP_DIR E) ''.part''"
  shows "\<not> str_includes (outputPath (clip_path_of E u s e q)) ''.part''"
proof
  assume "str_includes (outputPath (clip_path_of E u s e q)) ''.part''"
  then have "str_includes (TEMP_DIR E @ CHR ''/'' # filename (clip_path_of E u s e q)) ''.part''"
    by (simp add: clip_path_of_def Let_def path_join_def)
  then have "str_includes (TEMP_DIR E) ''.part'' \<or> str_includes (filename (clip_path_of E u s e q)) ''.part''"
    by (rule str_includes_split) simp
  then show False using assms filename_no_part by blast
qed

lemma ensureTempDir_frame:
  "ensureTempDir w = Inr w1 \<Longrightarrow>
     w1 = w\<lparr>tempDirExists := True\<rparr>"
  by (auto simp: ensureTempDir_def split: if_splits)

lemma getClipIdAndPath_Inr:
  "getClipIdAndPath E u s e q w = Inr (cp, w1) \<Longrightarrow>
     cp = clip_path_of E u s e q \<and> w1 = w\<lparr>tempDirExists := True\<rparr>"
  by (auto simp: getClipIdAndPath_def split: sum.splits dest: ensureTempDir_frame)

lemma downloadClip_absent:
  assumes "files w (outputPath (clip_path_of E u s e q)) = None"
      and "downloadClip E now u s e q bg w = Inr (h, w')"
  shows "files w' = files w \<and> h = length (spawned w) \<and> length (spawned w') = Suc (length (spawned w))"
  using assms
  by (auto simp: downloadClip_def resume_detection_def Let_def
           split: sum.splits prod.splits dest!: getClipIdAndPath_Inr ensureTempDir_frame)

section \<open>Frame properties of the clip service\<close>

lemma filename_shape:
  "\<exists>body. filename (clip_path_of E u s e q) = body @ ''.'' @ ext (clip_path_of E u s e q)
      \<and> set body \<subseteq> set (lowerL @ digitL @ ''_'')
      \<and> (ext (clip_path_of E u s e q) = ''m4a'' \<or> ext (clip_path_of E u s e q) = ''mp4'')"
proof -
  let ?body = "titleSafe_of (if u = [] then ''clip'' else u) @ ''_clip_'' @ clip_hash E u s e q"
  have "set ?body \<subseteq> set (lowerL @ digitL @ ''_'')"
    by (rule body_chars)
  then show ?thesis
    by (intro exI [of _ ?body]) (simp add: clip_path_of_def Let_def)
qed

lemma post_resume_existing:
  assumes np: "\<not> str_includes (TEMP_DIR E) ''.part''"
      and req: "q_url req = Some u" "u \<noteq> []" "q_start req = Some s" "q_end req = Some e"
      and dir: "tempDirExists w \<or> \<not> readonly w"
      and idle: "\<not> clip_active w (clipId (clip_path_of E u s e (quality_of req)))"
      and ex: "files w (outputPath (clip_path_of E u s e (quality_of req))) = Some st"
  shows "post_resume E now req w =
           (if (case q_background req of None \<Rightarrow> True | Some b \<Rightarrow> b)
            then ReadyJson (clipId (clip_path_of E u s e (quality_of req)))
                   (filename (clip_path_of E u s e (quality_of req))) (of_nat (fsize st) / 1048576)
            else Download (outputPath (clip_path_of E u s e (quality_of req)))
                   (filename (clip_path_of E u s e (quality_of req))),
            w\<lparr>tempDirExists := True\<rparr>)"
proof -
  let ?cp = "clip_path_of E u s e (quality_of req)"
  have g: "getClipIdAndPath E u s e (quality_of req) w = Inr (?cp, w\<lparr>tempDirExists := True\<rparr>)"
    using dir by (auto simp: getClipIdAndPath_def ensureTempDir_def)
  have a: "\<not> clip_active (w\<lparr>tempDirExists := True\<rparr>) (clipId ?cp)"
    using idle by (simp add: clip_active_def)
  have x: "existsSync (w\<lparr>tempDirExists := True\<rparr>) (outputPath ?cp)"
    using ex by (simp add: existsSync_def)
  have n: "\<not> str_includes (outputPath ?cp) ''.part''"
    using np by (rule outputPath_no_part)
  have v: "sizeMB (validateResumable (w\<lparr>tempDirExists := True\<rparr>) now (outputPath ?cp)) = of_nat (fsize st) / 1048576"
    using ex by (simp add: validateResumable_def Let_def)
  show ?thesis
    unfolding post_resume_def using req g a x n v
    by (simp add: falsy_url_def timeToSeconds_def Let_def)
qed

lemma downloadClip_absent_files:
  assumes "files w (outputPath (clip_path_of E u s e q)) = None"
  shows "files (case downloadClip E now u s e q bg w of Inl x \<Rightarrow> w | Inr (h, w') \<Rightarrow> w') = files w"
proof (cases "downloadClip E now u s e q bg w")
  case (Inl a)
  then show ?thesis by simp
next
  case (Inr r)
  obtain h w' where r: "r = (h, w')" by (cases r)
  have "files w' = files w"
    using downloadClip_absent [OF assms, of now bg h w'] Inr r by simp
  then show ?thesis using Inr r by simp
qed

lemma post_resume_files:
  assumes np: "\<not> str_includes (TEMP_DIR E) ''.part''"
  shows "files (snd (post_resume E now req w)) = files w"
proof (cases "falsy_url (q_url req) \<or> q_start req = None \<or> q_end req = None")
  case True
  then show ?thesis by (auto simp: post_resume_def)
next
  case False
  define u where "u = (case q_url req of None \<Rightarrow> [] | Some x \<Rightarrow> x)"
  define s where "s = timeToSeconds (q_start req)"
  define e where "e = timeToSeconds (q_end req)"
  define q where "q = quality_of req"
  define cp where "cp = clip_path_of E u s e q"
  have n: "\<not> str_includes (outputPath cp) ''.part''"
    unfolding cp_def using np by (rule outputPath_no_part)
  show ?thesis
  proof (cases "getClipIdAndPath E u s e q w")
    case (Inl err)
    then show ?thesis using False
      by (simp add: post_resume_def Let_def u_def s_def e_def q_def)
  next
    case (Inr r)
    then obtain w1 where g: "getClipIdAndPath E u s e q w = Inr (cp, w1)"
      and w1: "w1 = w\<lparr>tempDirExists := True\<rparr>"
      using getClipIdAndPath_Inr [of E u s e q w "fst r" "snd r"] by (auto simp: cp_def)
    have f1: "files w1 = files w" by (simp add: w1)
    show ?thesis
    proof (cases "clip_active w1 (clipId cp) \<or> existsSync w1 (outputPath cp)")
      case True
      then show ?thesis using False g n f1
        by (auto simp: post_resume_def Let_def u_def s_def e_def q_def)
    next
      case no: False
      then have absent: "files w1 (outputPath cp) = None"
        by (simp add: existsSync_def)
      define w3 where "w3 = (case downloadClip E now u s e q True w1 of Inl x \<Rightarrow> w1 | Inr (h, w') \<Rightarrow> w')"
      have f3: "files w3 = files w1"
        unfolding w3_def using absent unfolding cp_def by (rule downloadClip_absent_files)
      define w4 where "w4 = (case downloadClip E now u s e q False w3 of Inl x \<Rightarrow> w3 | Inr (h, w') \<Rightarrow> w')"
      have f4: "files w4 = files w3"
        unfolding w4_def using absent f3 unfolding cp_def by (intro downloadClip_absent_files) simp
      have "snd (post_resume E now req w) = w3 \<or> snd (post_resume E now req w) = w4"
        using False g no
        by (auto simp: post_resume_def Let_def u_def s_def e_def q_def w3_def w4_def split: sum.splits)
      then show ?thesis using f1 f3 f4 by auto
    qed
  qed
qed

lemma getClipIdAndPath_ok:
  "tempDirExists w \<or> \<not> readonly w \<Longrightarrow>
     getClipIdAndPath E u s e q w = Inr (clip_path_of E u s e q, w\<lparr>tempDirExists := True\<rparr>)"
  by (auto simp: getClipIdAndPath_def ensureTempDir_def)

lemma resume_detection_frame:
  assumes "resume_detection now cp w = (ri, w2)"
  shows "spawned w2 = spawned w \<and> activeClips w2 = activeClips w \<and> tempDirExists w2 = tempDirExists w
       \<and> readonly w2 = readonly w \<and> broadcasts w2 = broadcasts w \<and> recordings w2 = recordings w
       \<and> currentProgress w2 = currentProgress w"
  using assms
  by (auto simp: resume_detection_def Let_def unlinkSync_def split: option.splits if_splits)

lemma downloadClip_effect:
  assumes dir: "tempDirExists w \<or> \<not> readonly w"
  shows "\<exists>ri w2. resume_detection now (clip_path_of E u s e q) (w\<lparr>tempDirExists := True\<rparr>) = (ri, w2)
           \<and> downloadClip E now u s e q bg w =
               Inr (length (spawned w),
                    w2\<lparr>spawned := spawned w @
                          [\<lparr>args = clip_args u s e q (outputPath (clip_path_of E u s e q)),
                            j_path = clip_path_of E u s e q, resumeInfo = ri,
                            stderrBuf = [], closed = False\<rparr>],
                        activeClips := (activeClips w)(clipId (clip_path_of E u s e q) \<mapsto>
                          \<lparr>proc = Some (length (spawned w)),
                           c_outputPath = outputPath (clip_path_of E u s e q), percent = 0,
                           message = ''Starting'', background = bg,
                           c_filename = filename (clip_path_of E u s e q),
                           ready = None, stderr = None\<rparr>)\<rparr>)"
proof -
  let ?cp = "clip_path_of E u s e q"
  let ?w1 = "w\<lparr>tempDirExists := True\<rparr>"
  obtain ri w2 where rd: "resume_detection now ?cp ?w1 = (ri, w2)"
    by (cases "resume_detection now ?cp ?w1")
  have fr: "spawned w2 = spawned w" "activeClips w2 = activeClips w"
    using resume_detection_frame [OF rd] by simp_all
  have e1: "ensureTempDir w = Inr ?w1"
    using dir by (auto simp: ensureTempDir_def)
  have g: "getClipIdAndPath E u s e q ?w1 = Inr (?cp, ?w1)"
    using getClipIdAndPath_ok [of ?w1 E u s e q] by simp
  have "downloadClip E now u s e q bg w =
               Inr (length (spawned w),
                    w2\<lparr>spawned := spawned w @
                          [\<lparr>args = clip_args u s e q (outputPath ?cp),
                            j_path = ?cp, resumeInfo = ri,
                            stderrBuf = [], closed = False\<rparr>],
                        activeClips := (activeClips w)(clipId ?cp \<mapsto>
                          \<lparr>proc = Some (length (spawned w)),
                           c_outputPath = outputPath ?cp, percent = 0,
                           message = ''Starting'', background = bg,
                           c_filename = filename ?cp,
                           ready = None, stderr = None\<rparr>)\<rparr>)"
    unfolding downloadClip_def by (simp add: e1 g rd fr Let_def)
  with rd show ?thesis by blast
qed

section \<open>Claims\<close>

text \<open>
  Claim C5. For a file that exists, \<open>validateResumable\<close> answers in this order: not
  resumable, "File too small (corrupted)", when the size is below 1024 bytes; otherwise
  not resumable, "Stale and undersized", when the file is older than 24 hours and smaller
  than 1 MB; otherwise resumable. So it is resumable exactly when the size is at least 1024
  bytes and the file is not both older than 24 hours and below 1 MB.
\<close>

theorem validateResumable_classification:
  assumes "files w p = Some st"
  shows "(fsize st < 1024 \<longrightarrow>
            \<not> resumable (validateResumable w now p) \<and>
            reason (validateResumable w now p) = ''File too small (corrupted)'')
       \<and> (1024 \<le> fsize st \<and> now - mtimeMs st > 24 * 60 * 60 * 1000 \<and> fsize st < 1024 * 1024 \<longrightarrow>
            \<not> resumable (validateResumable w now p) \<and>
            reason (validateResumable w now p) = ''Stale and undersized'')
       \<and> (1024 \<le> fsize st \<and> \<not> (now - mtimeMs st > 24 * 60 * 60 * 1000 \<and> fsize st < 1024 * 1024) \<longrightarrow>
            resumable (validateResumable w now p) \<and>
            reason (validateResumable w now p) = ''Valid partial download'')
       \<and> (resumable (validateResumable w now p) \<longleftrightarrow>
            \<not> (fsize st < 1024 \<or> (now - mtimeMs st > 24 * 60 * 60 * 1000 \<and> fsize st < 1024 * 1024)))
       \<and> sizeMB (validateResumable w now p) = of_nat (fsize st) / 1048576"
proof -
  have age: "(rat_of_int (now - mtimeMs st) / 60000 > 1440) = (now - mtimeMs st > 24 * 60 * 60 * 1000)"
    by (simp add: less_divide_eq) linarith
  have mb: "((of_nat (fsize st) :: rat) / (1024 * 1024) < 1) = (fsize st < 1024 * 1024)"
    by (simp add: divide_less_eq)
  show ?thesis
    using assms unfolding validateResumable_def Let_def age mb by auto
qed

theorem validateResumable_examples:
  "\<not> resumable (validateResumable (with_file ''/app/temp/a.mp4'' 900 0 world0) 120000 ''/app/temp/a.mp4'')
   \<and> reason (validateResumable (with_file ''/app/temp/a.mp4'' 900 0 world0) 120000 ''/app/temp/a.mp4'')
        = ''File too small (corrupted)''
   \<and> resumable (validateResumable (with_file ''/app/temp/a.mp4'' (50 * 1024 * 1024) 0 world0) 120000 ''/app/temp/a.mp4'')
   \<and> \<not> resumable (validateResumable (with_file ''/app/temp/a.mp4'' 2048 0 world0) (25 * 3600000) ''/app/temp/a.mp4'')
   \<and> reason (validateResumable (with_file ''/app/temp/a.mp4'' 2048 0 world0) (25 * 3600000) ''/app/temp/a.mp4'')
        = ''Stale and undersized''"
  using validateResumable_classification
          [of "with_file ''/app/temp/a.mp4'' 900 0 world0" "''/app/temp/a.mp4''"
              "\<lparr>fsize = 900, mtimeMs = 0, content = []\<rparr>" 120000]
        validateResumable_classification
          [of "with_file ''/app/temp/a.mp4'' (50 * 1024 * 1024) 0 world0" "''/app/temp/a.mp4''"
              "\<lparr>fsize = 50 * 1024 * 1024, mtimeMs = 0, content = []\<rparr>" 120000]
        validateResumable_classification
          [of "with_file ''/app/temp/a.mp4'' 2048 0 world0" "''/app/temp/a.mp4''"
              "\<lparr>fsize = 2048, mtimeMs = 0, content = []\<rparr>" "25 * 3600000"]
  by (simp add: with_file_def world0_def)

text \<open>
  Claim C2. The fingerprint and the output path are a function of
  \<open>(url, startSeconds, endSeconds, quality)\<close> alone: when a call succeeds, calling again
  with the same four values gives the same result, whatever the state of the server, and
  the extension is \<open>m4a\<close> for the quality \<open>audio\<close> and \<open>mp4\<close> for every other.
\<close>

theorem getClipIdAndPath_deterministic:
  assumes "js_lt startSeconds endSeconds"
      and "getClipIdAndPath E url startSeconds endSeconds quality w = Inr (cp, w')"
  shows "getClipIdAndPath E url startSeconds endSeconds quality w' = Inr (cp, w')
       \<and> (\<forall>v cp2 v'. getClipIdAndPath E url startSeconds endSeconds quality v = Inr (cp2, v')
             \<longrightarrow> clipId cp2 = clipId cp \<and> outputPath cp2 = outputPath cp)
       \<and> ext cp = (if quality = ''audio'' then ''m4a'' else ''mp4'')
       \<and> outputPath cp = TEMP_DIR E @ ''/'' @ filename cp
       \<and> suffix (''.'' @ ext cp) (filename cp)"
  using assms(2)
  by (auto simp: getClipIdAndPath_def ensureTempDir_def clip_path_of_def Let_def path_join_def
        suffix_def split: if_splits sum.splits)

theorem getClipIdAndPath_deterministic_witness:
  "js_lt (Num 10) (Num 40)
     \<and> getClipIdAndPath example_env ''srcXYZ'' (Num 10) (Num 40) ''best'' world0
        = Inr (clip_path_of example_env ''srcXYZ'' (Num 10) (Num 40) ''best'', world0)
     \<and> getClipIdAndPath example_env ''srcXYZ'' (Num 10) (Num 40) ''best''
          (with_file ''/app/temp/other.mp4'' 5 0 world0)
        = Inr (clip_path_of example_env ''srcXYZ'' (Num 10) (Num 40) ''best'',
               with_file ''/app/temp/other.mp4'' 5 0 world0)
     \<and> ext (clip_path_of example_env ''srcXYZ'' (Num 10) (Num 40) ''best'') = ''mp4''
     \<and> ext (clip_path_of example_env ''srcXYZ'' (Num 10) (Num 40) ''audio'') = ''m4a''
     \<and> filename (clip_path_of example_env ''srcXYZ'' (Num 10) (Num 40) ''best'')
        = ''srcxyz_clip_'' @ take 12 (hex (example_digest ''srcXYZ|10|40|best'')) @ ''.mp4''"
proof -
  have g: "getClipIdAndPath example_env ''srcXYZ'' (Num 10) (Num 40) ''best'' world0
        = Inr (clip_path_of example_env ''srcXYZ'' (Num 10) (Num 40) ''best'', world0)"
    by (simp add: getClipIdAndPath_def ensureTempDir_def world0_def)
  have g2: "getClipIdAndPath example_env ''srcXYZ'' (Num 10) (Num 40) ''audio'' world0
        = Inr (clip_path_of example_env ''srcXYZ'' (Num 10) (Num 40) ''audio'', world0)"
    by (simp add: getClipIdAndPath_def ensureTempDir_def world0_def)
  have g3: "getClipIdAndPath example_env ''srcXYZ'' (Num 10) (Num 40) ''best''
          (with_file ''/app/temp/other.mp4'' 5 0 world0)
        = Inr (clip_path_of example_env ''srcXYZ'' (Num 10) (Num 40) ''best'',
               with_file ''/app/temp/other.mp4'' 5 0 world0)"
    by (simp add: getClipIdAndPath_def ensureTempDir_def world0_def with_file_def)
  have n: "filename (clip_path_of example_env ''srcXYZ'' (Num 10) (Num 40) ''best'')
        = ''srcxyz_clip_'' @ take 12 (hex (example_digest ''srcXYZ|10|40|best'')) @ ''.mp4''"
    by (simp add: clip_path_of_def clip_hash_def titleSafe_of_def toLowerCase_def
          replace_non_alnum_def is_alnum_def lower_char_def lowerL_def upperL_def digitL_def
          example_env_def int_str_def dec.simps Let_def)
  show ?thesis
    using getClipIdAndPath_deterministic [of "Num 10" "Num 40" example_env "''srcXYZ''" "''best''" world0 _ world0, OF _ g]
          getClipIdAndPath_deterministic [of "Num 10" "Num 40" example_env "''srcXYZ''" "''audio''" world0 _ world0, OF _ g2]
          g g3 n
    by simp
qed

end
